theory Spec2Isabelle
  imports Main
begin

section \<open>watson/core.py: exceptions and the shell primitive\<close>

text \<open>
  The exceptions that can leave the functions of \<^verbatim>\<open>core.py\<close>: its own
  \<^verbatim>\<open>WatsonError\<close> (with its message), and those of the library calls it makes:
  \<^verbatim>\<open>OSError\<close> from \<^verbatim>\<open>os.listdir\<close>, \<^verbatim>\<open>ValueError\<close> from
  \<^verbatim>\<open>sched.scheduler.cancel\<close> (the event is not in the queue), \<^verbatim>\<open>AttributeError\<close>
  from reading \<^verbatim>\<open>.stdout\<close> of \<^verbatim>\<open>None\<close>, and whatever
  \<^verbatim>\<open>config.ProjectConfig\<close> raises on a configuration it refuses.
\<close>

datatype exn =
    WatsonError string
  | OSError
  | ValueError
  | AttributeError
  | ConfigError string

text \<open>
  What \<^verbatim>\<open>fabric.operations.local(command, capture=True)\<close> returns: the captured
  standard output and standard error, and the \<^verbatim>\<open>succeeded\<close> flag. Under
  \<^verbatim>\<open>warn_only=True\<close> a failing command does not abort: it returns with the flag
  false.
\<close>

record cmd_result =
  stdout :: string
  stderr :: string
  succeeded :: bool

text \<open>
  The shell primitive is a parameter: given the working directory (set by
  \<^verbatim>\<open>lcd\<close>), the command and the state of the world \<open>'w\<close>, it returns the result and the
  world after the command.
\<close>

type_synonym 'w shell = "string \<Rightarrow> string \<Rightarrow> 'w \<Rightarrow> cmd_result \<times> 'w"

section \<open>ProjectBuilder\<close>

text \<open>
  The loop of \<^verbatim>\<open>_execute_script_internal\<close>, with its two variables
  \<^verbatim>\<open>succeeded\<close> and \<^verbatim>\<open>result\<close> (\<open>None\<close> until a command has run) as the
  accumulator. \<^verbatim>\<open>break\<close> is the branch that returns without the recursive call.
\<close>

fun script_loop ::
  "'w shell \<Rightarrow> string \<Rightarrow> string list \<Rightarrow> bool \<times> cmd_result option \<Rightarrow> 'w
    \<Rightarrow> (bool \<times> cmd_result option) \<times> 'w"
where
  "script_loop run_local working_dir [] acc w = (acc, w)"
| "script_loop run_local working_dir (command # script) acc w =
     (case run_local working_dir command w of
        (result, w') \<Rightarrow>
          (let succ = (fst acc \<and> succeeded result) in
           if \<not> succ then ((succ, Some result), w')
           else script_loop run_local working_dir script (succ, Some result) w'))"

definition execute_script_internal ::
  "'w shell \<Rightarrow> string \<Rightarrow> string list \<Rightarrow> 'w \<Rightarrow> (bool \<times> cmd_result option) \<times> 'w"
where
  "execute_script_internal run_local working_dir script w =
     script_loop run_local working_dir script (True, None) w"

definition execute_script ::
  "'w shell \<Rightarrow> string \<Rightarrow> string list \<Rightarrow> 'w \<Rightarrow> (bool \<times> cmd_result option) \<times> 'w"
where
  "execute_script run_local working_dir script w =
     execute_script_internal run_local working_dir script w"

text \<open>
  Two devices for stating what the loop did, neither part of the program. \<open>run_all\<close>
  runs every command of a list, with no early exit, and collects the results.
  \<open>traced\<close> wraps a shell so that the world also records, in order, the commands that
  were run.
\<close>

fun run_all :: "'w shell \<Rightarrow> string \<Rightarrow> string list \<Rightarrow> 'w \<Rightarrow> cmd_result list \<times> 'w" where
  "run_all run_local working_dir [] w = ([], w)"
| "run_all run_local working_dir (command # script) w =
     (case run_local working_dir command w of
        (result, w') \<Rightarrow>
          (case run_all run_local working_dir script w' of
             (results, w'') \<Rightarrow> (result # results, w'')))"

definition traced :: "'w shell \<Rightarrow> ('w \<times> string list) shell" where
  "traced run_local working_dir command wt =
     (case run_local working_dir command (fst wt) of
        (result, w') \<Rightarrow> (result, (w', snd wt @ [command])))"

text \<open>
  A concrete shell for running the model on examples: every command succeeds except
  \<^verbatim>\<open>false_cmd\<close>, the output names the command, and the world is the list of the
  commands run so far.
\<close>

definition demo_shell :: "string list shell" where
  "demo_shell working_dir command w =
     (\<lparr>stdout = ''out of '' @ command, stderr = [], succeeded = (command \<noteq> ''false_cmd'')\<rparr>,
      w @ [command])"

section \<open>Paths and project discovery\<close>




















section \<open>Project configuration\<close>

text \<open>
  Modelled from the spec: \<^verbatim>\<open>config.ProjectConfig\<close> (the module
  \<^verbatim>\<open>watson/config.py\<close> is not among the sources). The spec gives the configuration
  as a mapping with at least the keys \<^verbatim>\<open>script\<close> (an ordered list of command
  strings) and \<^verbatim>\<open>build_timeout\<close> (the debounce delay), and says that a malformed
  configuration fails with an error. So the object is a record of the two entries, and
  the constructor is a parameter that either raises or returns one, from a user
  configuration of any type \<open>'u\<close>.
\<close>

record project_config =
  cfg_script :: "string list"
  cfg_build_timeout :: int

type_synonym 'u config_class = "'u \<Rightarrow> exn + project_config"

section \<open>The scheduler of the standard library\<close>

text \<open>
  \<^verbatim>\<open>sched.scheduler\<close> of Python 2: an event is the tuple of its time, priority,
  action and argument; the argument is always the empty list here and is left out. The
  only actions ever entered are the bound methods \<^verbatim>\<open>build\<close> of project watchers; a
  watcher lives in the registry of the daemon under its name, and \<open>Build n\<close> is the
  method of the watcher registered under \<open>n\<close>. Times are readings of
  \<^verbatim>\<open>time.time()\<close>, taken as integer ticks.
\<close>

datatype callback = Build string

record sched_event =
  ev_time :: int
  ev_priority :: int
  ev_action :: callback

text \<open>
  The queue is the list of pending events in the order they were entered.
  \<^verbatim>\<open>enter\<close> reads the clock and pushes the event; \<^verbatim>\<open>cancel\<close> is
  \<^verbatim>\<open>list.remove\<close>, which removes the first equal event and raises
  \<^verbatim>\<open>ValueError\<close> when there is none. \<open>queue_head\<close> is \<^verbatim>\<open>q[0]\<close> of the heap:
  the event least in time, then priority (between events equal in both, Python compares
  the actions; the model takes the one entered first).
\<close>

definition enter ::
  "int \<Rightarrow> int \<Rightarrow> int \<Rightarrow> callback \<Rightarrow> sched_event list \<Rightarrow> sched_event \<times> sched_event list"
where
  "enter now delay priority action q =
     (let event = \<lparr>ev_time = now + delay, ev_priority = priority, ev_action = action\<rparr>
      in (event, q @ [event]))"

definition cancel :: "sched_event \<Rightarrow> sched_event list \<Rightarrow> exn + sched_event list" where
  "cancel event q = (if event \<in> set q then Inr (remove1 event q) else Inl ValueError)"

definition earlier :: "sched_event \<Rightarrow> sched_event \<Rightarrow> bool" where
  "earlier a b =
     (ev_time a < ev_time b \<or> (ev_time a = ev_time b \<and> ev_priority a < ev_priority b))"

fun queue_min :: "sched_event \<Rightarrow> sched_event list \<Rightarrow> sched_event" where
  "queue_min e [] = e"
| "queue_min e (x # xs) = queue_min (if earlier x e then x else e) xs"

section \<open>EventScheduler\<close>

text \<open>
  The thread of \<^verbatim>\<open>EventScheduler.run\<close> is at one of these places: at the test of
  the \<^verbatim>\<open>while\<close> loop; inside \<^verbatim>\<open>self._sched.run()\<close>, about to look at the
  queue; inside it, asleep until the time of the head event; inside it, having popped an
  event whose action it is about to call; inside the \<^verbatim>\<open>build\<close> of a watcher, the
  handle already cleared; between the return of \<^verbatim>\<open>self._sched.run()\<close> and the lock;
  waiting on the condition; returned from \<^verbatim>\<open>run\<close>; or ended by an exception that a
  callback raised.
\<close>

datatype worker =
    AtLoopTest
  | InSchedRun
  | Sleeping int
  | Popped sched_event
  | InBuild string
  | BeforeWait
  | Waiting
  | Stopped
  | Crashed exn

record event_scheduler =
  es_queue :: "sched_event list"
  es_is_finished :: bool
  es_join_event :: bool
  es_worker :: worker


text \<open>
  \<^verbatim>\<open>self._condition.notify()\<close> wakes the worker if it is waiting; the worker then
  leaves the \<^verbatim>\<open>with\<close> block and is back at the loop test.
\<close>

definition notify :: "event_scheduler \<Rightarrow> event_scheduler" where
  "notify es = (if es_worker es = Waiting then es\<lparr>es_worker := AtLoopTest\<rparr> else es)"

definition schedule ::
  "int \<Rightarrow> sched_event option \<Rightarrow> int \<Rightarrow> callback \<Rightarrow> event_scheduler
    \<Rightarrow> (exn + sched_event) \<times> event_scheduler"
where
  "schedule now event delay function es =
     (let es1 = notify es in
      case (case event of
              None \<Rightarrow> Inr (es_queue es1)
            | Some e \<Rightarrow> cancel e (es_queue es1)) of
        Inl x \<Rightarrow> (Inl x, es1)
      | Inr q \<Rightarrow>
          (case enter now delay 1 function q of
             (new_event, q') \<Rightarrow> (Inr new_event, es1\<lparr>es_queue := q'\<rparr>)))"


text \<open>
  \<^verbatim>\<open>join\<close> blocks its caller until the join event is set: it can return in the
  states where this holds.
\<close>

definition join_returns :: "event_scheduler \<Rightarrow> bool" where
  "join_returns es = es_join_event es"

section \<open>Notifications and the observer\<close>

text \<open>
  A \<^verbatim>\<open>pynotify.Notification\<close>: its summary and body, its timeout, and how many
  times it was shown. The observer of \<^verbatim>\<open>watchdog\<close> keeps, for each scheduled watch
  (a path and the recursive flag), the handler to call; the handler is the watcher, named
  as in the registry. \<^verbatim>\<open>observer.schedule\<close> starts watching the path at once and
  raises when the operating system refuses (the directory does not exist, for one): which
  paths can be watched is the parameter \<open>watchable\<close>.
\<close>

record notification =
  nt_summary :: string
  nt_body :: string
  nt_timeout :: int
  nt_shown :: nat

definition update :: "string \<Rightarrow> string \<Rightarrow> notification \<Rightarrow> notification" where
  "update summary body n = n\<lparr>nt_summary := summary, nt_body := body\<rparr>"

definition show_it :: "notification \<Rightarrow> notification" where
  "show_it n = n\<lparr>nt_shown := Suc (nt_shown n)\<rparr>"

type_synonym watch = "string \<times> bool"

record observer =
  ob_handlers :: "(watch \<times> string) list"
  ob_stopped :: bool




section \<open>ProjectWatcher\<close>

text \<open>
  The fields of a watcher. The scheduler, the builder and the observer it refers to are
  the shared ones of the daemon, and are passed to the methods that use them.
  \<^verbatim>\<open>_last_status\<close> starts as \<^verbatim>\<open>(None, None)\<close> and then holds the pair a build
  returned.
\<close>

record project_watcher =
  pw_event :: "sched_event option"
  pw_name :: string
  pw_working_dir :: string
  pw_config :: project_config
  pw_last_status :: "bool option \<times> cmd_result option"
  pw_notification :: notification
  pw_watch :: watch


definition set_config ::
  "'u config_class \<Rightarrow> 'u \<Rightarrow> project_watcher \<Rightarrow> exn option \<times> project_watcher"
where
  "set_config ProjectConfig user_config self =
     (case ProjectConfig user_config of
        Inl x \<Rightarrow> (Some x, self)
      | Inr c \<Rightarrow> (None, self\<lparr>pw_config := c\<rparr>))"




text \<open>
  \<^verbatim>\<open>schedule_build\<close>, statement by statement: the timeout is the one given or the
  configured one; the arguments of the call are evaluated, among them the current
  handle \<^verbatim>\<open>self._event\<close>; \<^verbatim>\<open>schedule\<close> runs, under the lock of the scheduler;
  its result is assigned to \<^verbatim>\<open>self._event\<close>. Only the third of these holds a lock.
  \<open>schedule_build\<close> itself is the whole call run with no other thread in between.
\<close>

definition resolve_timeout :: "int option \<Rightarrow> project_watcher \<Rightarrow> int" where
  "resolve_timeout timeout self =
     (case timeout of
        None \<Rightarrow> cfg_build_timeout (pw_config self)
      | Some t \<Rightarrow> t)"

definition read_handle :: "project_watcher \<Rightarrow> sched_event option" where
  "read_handle self = pw_event self"

definition store_handle :: "sched_event \<Rightarrow> project_watcher \<Rightarrow> project_watcher" where
  "store_handle new_event self = self\<lparr>pw_event := Some new_event\<rparr>"

definition schedule_build ::
  "int \<Rightarrow> int option \<Rightarrow> project_watcher \<Rightarrow> event_scheduler
    \<Rightarrow> exn option \<times> project_watcher \<times> event_scheduler"
where
  "schedule_build now timeout self es =
     (let timeout' = resolve_timeout timeout self;
          handle = read_handle self
      in case schedule now handle timeout' (Build (pw_name self)) es of
           (Inl x, es') \<Rightarrow> (Some x, self, es')
         | (Inr new_event, es') \<Rightarrow> (None, store_handle new_event self, es'))"

definition on_any_event ::
  "int \<Rightarrow> project_watcher \<Rightarrow> event_scheduler \<Rightarrow> exn option \<times> project_watcher \<times> event_scheduler"
where
  "on_any_event now self es = schedule_build now None self es"

text \<open>
  \<^verbatim>\<open>str.strip()\<close> removes the white space of both ends, and
  \<^verbatim>\<open>sep.join\<close> puts the separator between the strings of a list.
\<close>

definition is_space :: "char \<Rightarrow> bool" where
  "is_space c = (c \<in> set [CHR '' '', CHR 0x09, CHR 0x0A, CHR 0x0B, CHR 0x0C, CHR 0x0D])"

definition strip :: "string \<Rightarrow> string" where
  "strip s = rev (dropWhile is_space (rev (dropWhile is_space s)))"

fun join :: "string \<Rightarrow> string list \<Rightarrow> string" where
  "join sep [] = []"
| "join sep [x] = x"
| "join sep (x # y # ys) = x @ sep @ join sep (y # ys)"

text \<open>
  \<^verbatim>\<open>_show_notification\<close>. Reading \<^verbatim>\<open>result.stdout\<close> raises
  \<^verbatim>\<open>AttributeError\<close> when the result is \<^verbatim>\<open>None\<close>. \<^verbatim>\<open>output or "No output"\<close>
  is the second string when the first is empty.
\<close>

definition show_notification ::
  "bool \<times> cmd_result option \<Rightarrow> project_watcher \<Rightarrow> exn option \<times> project_watcher"
where
  "show_notification status self =
     (case status of
        (succeeed, None) \<Rightarrow> (Some AttributeError, self)
      | (succeeed, Some result) \<Rightarrow>
          (let output = join [CHR 0x0A] [strip (stdout result), strip (stderr result)];
               n = (if \<not> succeeed
                    then update (pw_name self @ '' failed'')
                           (if output \<noteq> [] then output else ''No output'')
                           (pw_notification self)
                    else update (pw_name self @ '' back to normal'') output
                           (pw_notification self))
           in (None, self\<lparr>pw_notification := show_it n,
                          pw_last_status := (Some succeeed, Some result)\<rparr>)))"

text \<open>
  \<^verbatim>\<open>build\<close> has two parts: its first statement clears the handle; the rest reads
  the working directory and the script, runs the script and shows the notification.
  \<open>build\<close> is the whole method run with no other thread in between.
\<close>

definition clear_handle :: "project_watcher \<Rightarrow> project_watcher" where
  "clear_handle self = self\<lparr>pw_event := None\<rparr>"

definition build_rest ::
  "'w shell \<Rightarrow> project_watcher \<Rightarrow> 'w \<Rightarrow> exn option \<times> project_watcher \<times> 'w"
where
  "build_rest run_local self w =
     (case execute_script run_local (pw_working_dir self) (cfg_script (pw_config self)) w of
        (status, w') \<Rightarrow>
          (case show_notification status self of
             (x, self2) \<Rightarrow> (x, self2, w')))"

definition build ::
  "'w shell \<Rightarrow> project_watcher \<Rightarrow> 'w \<Rightarrow> exn option \<times> project_watcher \<times> 'w"
where
  "build run_local self w = build_rest run_local (clear_handle self) w"

section \<open>WatsonServer\<close>

text \<open>
  The daemon: the registry of watchers by project name, the scheduler, the observer,
  whether the remote interface was closed, and with them the clock and the world the
  shell commands act on.
\<close>

record 'w daemon =
  d_projects :: "string \<rightharpoonup> project_watcher"
  d_scheduler :: event_scheduler
  d_observer :: observer
  d_api_closed :: bool
  d_clock :: int
  d_world :: 'w



definition project_set_config ::
  "'u config_class \<Rightarrow> string \<Rightarrow> 'u \<Rightarrow> 'w daemon \<Rightarrow> exn option \<times> 'w daemon"
where
  "project_set_config ProjectConfig project_name config d =
     (case d_projects d project_name of
        None \<Rightarrow> (None, d)
      | Some self \<Rightarrow>
          (case set_config ProjectConfig config self of
             (x, self') \<Rightarrow> (x, d\<lparr>d_projects := (d_projects d)(project_name \<mapsto> self')\<rparr>)))"




definition hello :: string where
  "hello = ''World!''"

section \<open>The worker thread\<close>

definition set_worker :: "worker \<Rightarrow> 'w daemon \<Rightarrow> 'w daemon" where
  "set_worker l d = d\<lparr>d_scheduler := (d_scheduler d)\<lparr>es_worker := l\<rparr>\<rparr>"

text \<open>
  One step of the thread of \<^verbatim>\<open>EventScheduler.run\<close>. Inside
  \<^verbatim>\<open>self._sched.run()\<close>, the loop of the library: an empty queue ends it; a head
  event that is not due puts the thread to sleep until its time; a head event that is due
  is popped. Calling the action of a popped event is calling \<^verbatim>\<open>build\<close> of the
  watcher registered under the name (an action of no registered watcher is never
  entered): one step clears the handle, the next runs the rest of \<^verbatim>\<open>build\<close>; an
  exception of \<^verbatim>\<open>build\<close> ends the thread without the join event being set. Other
  threads can run between any two steps. The finished flag is read at the loop test and
  before waiting, nowhere else.
\<close>

definition worker_step :: "'w shell \<Rightarrow> 'w daemon \<Rightarrow> 'w daemon" where
  "worker_step run_local d =
     (let es = d_scheduler d in
      case es_worker es of
        AtLoopTest \<Rightarrow>
          (if es_is_finished es
           then d\<lparr>d_scheduler := es\<lparr>es_join_event := True, es_worker := Stopped\<rparr>\<rparr>
           else set_worker InSchedRun d)
      | InSchedRun \<Rightarrow>
          (case es_queue es of
             [] \<Rightarrow> set_worker BeforeWait d
           | e # q \<Rightarrow>
               (let event = queue_min e q in
                if d_clock d < ev_time event then set_worker (Sleeping (ev_time event)) d
                else d\<lparr>d_scheduler :=
                         es\<lparr>es_queue := remove1 event (es_queue es),
                            es_worker := Popped event\<rparr>\<rparr>))
      | Sleeping t \<Rightarrow> (if t \<le> d_clock d then set_worker InSchedRun d else d)
      | Popped event \<Rightarrow>
          (case ev_action event of
             Build n \<Rightarrow>
               (case d_projects d n of
                  None \<Rightarrow> set_worker InSchedRun d
                | Some self \<Rightarrow>
                    set_worker (InBuild n)
                      (d\<lparr>d_projects := (d_projects d)(n \<mapsto> clear_handle self)\<rparr>)))
      | InBuild n \<Rightarrow>
          (case d_projects d n of
             None \<Rightarrow> set_worker InSchedRun d
           | Some self \<Rightarrow>
               (case build_rest run_local self (d_world d) of
                  (x, self', w') \<Rightarrow>
                    set_worker (case x of None \<Rightarrow> InSchedRun | Some y \<Rightarrow> Crashed y)
                      (d\<lparr>d_projects := (d_projects d)(n \<mapsto> self'), d_world := w'\<rparr>)))
      | BeforeWait \<Rightarrow>
          (if \<not> es_is_finished es then set_worker Waiting d else set_worker AtLoopTest d)
      | Waiting \<Rightarrow> d
      | Stopped \<Rightarrow> d
      | Crashed x \<Rightarrow> d)"

section \<open>The operations on a running daemon\<close>







text \<open>
  The timers of a project are the pending events whose action is its \<^verbatim>\<open>build\<close>.
  The invariant of a project name, for whole calls. If no watcher is registered under the
  name, it has no timer, and the worker holds no popped event of it. If one is, it
  carries that name, and either the worker has popped the timer of the watcher and not
  yet cleared the handle (then the name has no timer left and the handle is still the
  popped event), or the timers of the name are exactly the handle of the watcher (none
  when the handle is \<^verbatim>\<open>None\<close>).
\<close>

definition timers :: "string \<Rightarrow> 'w daemon \<Rightarrow> sched_event list" where
  "timers n d = filter (\<lambda>e. ev_action e = Build n) (es_queue (d_scheduler d))"

definition popped :: "'w daemon \<Rightarrow> sched_event option" where
  "popped d = (case es_worker (d_scheduler d) of Popped event \<Rightarrow> Some event | _ \<Rightarrow> None)"

definition popped_for :: "string \<Rightarrow> 'w daemon \<Rightarrow> bool" where
  "popped_for n d = (case popped d of None \<Rightarrow> False | Some event \<Rightarrow> ev_action event = Build n)"

definition watcher_inv :: "string \<Rightarrow> 'w daemon \<Rightarrow> bool" where
  "watcher_inv n d =
     (case d_projects d n of
        None \<Rightarrow> timers n d = [] \<and> \<not> popped_for n d
      | Some self \<Rightarrow>
          pw_name self = n \<and>
          (if popped_for n d
           then timers n d = [] \<and> pw_event self = popped d
           else timers n d = (case pw_event self of None \<Rightarrow> [] | Some e \<Rightarrow> [e])))"



definition joined_inv :: "'w daemon \<Rightarrow> bool" where
  "joined_inv d = (\<not> es_join_event (d_scheduler d) \<or> es_worker (d_scheduler d) = Stopped)"

fun in_sched_run :: "worker \<Rightarrow> bool" where
  "in_sched_run InSchedRun = True"
| "in_sched_run (Sleeping t) = True"
| "in_sched_run (Popped event) = True"
| "in_sched_run (InBuild n) = True"
| "in_sched_run l = False"








section \<open>Properties of ProjectBuilder\<close>

lemma run_all_length: "length (fst (run_all run_local wd script w)) = length script"
proof (induction script arbitrary: w)
  case Nil
  then show ?case by simp
next
  case (Cons c cs)
  obtain r w1 where r: "run_local wd c w = (r, w1)" by (cases "run_local wd c w")
  show ?case using Cons.IH [of w1] r by (cases "run_all run_local wd cs w1") simp
qed

lemma run_all_traced:
  "run_all (traced run_local) wd script (w, tr) =
     (fst (run_all run_local wd script w), (snd (run_all run_local wd script w), tr @ script))"
proof (induction script arbitrary: w tr)
  case Nil
  then show ?case by simp
next
  case (Cons c cs)
  obtain r w1 where r: "run_local wd c w = (r, w1)" by (cases "run_local wd c w")
  show ?case using Cons.IH [of w1 "tr @ [c]"] r
    by (simp add: traced_def split: prod.splits)
qed

lemma script_loop_all_succeed:
  "list_all succeeded (fst (run_all run_local wd script w)) \<Longrightarrow>
   script_loop run_local wd script (True, res) w =
     ((True, if script = [] then res else Some (last (fst (run_all run_local wd script w)))),
      snd (run_all run_local wd script w))"
proof (induction script arbitrary: res w)
  case Nil
  then show ?case by simp
next
  case (Cons c cs)
  obtain r w1 where r: "run_local wd c w = (r, w1)" by (cases "run_local wd c w")
  obtain rs w2 where rs: "run_all run_local wd cs w1 = (rs, w2)"
    by (cases "run_all run_local wd cs w1")
  from Cons.prems r rs have ok: "succeeded r" "list_all succeeded rs" by simp_all
  from ok(2) rs have "list_all succeeded (fst (run_all run_local wd cs w1))" by simp
  from Cons.IH [OF this, of "Some r"]
  have ih: "script_loop run_local wd cs (True, Some r) w1 =
      ((True, if cs = [] then Some r else Some (last rs)), w2)"
    using rs by simp
  have "length rs = length cs" using run_all_length [of run_local wd cs w1] rs by simp
  then have "(rs = []) = (cs = [])" by auto
  then show ?case using ih r rs ok(1) by simp
qed

lemma script_loop_first_failure:
  assumes "list_all succeeded (fst (run_all run_local wd pre w))"
    and "run_local wd c (snd (run_all run_local wd pre w)) = (r, w')"
    and "\<not> succeeded r"
  shows "script_loop run_local wd (pre @ c # post) (True, res) w = ((False, Some r), w')"
  using assms
proof (induction pre arbitrary: res w)
  case Nil
  then show ?case by simp
next
  case (Cons p ps)
  obtain q w1 where q: "run_local wd p w = (q, w1)" by (cases "run_local wd p w")
  obtain rs w2 where rs: "run_all run_local wd ps w1 = (rs, w2)"
    by (cases "run_all run_local wd ps w1")
  from Cons.prems(1) q rs have ok: "succeeded q" "list_all succeeded rs" by simp_all
  have a: "list_all succeeded (fst (run_all run_local wd ps w1))" using ok(2) rs by simp
  have b: "run_local wd c (snd (run_all run_local wd ps w1)) = (r, w')"
    using Cons.prems(2) q rs by simp
  from Cons.IH [OF a b Cons.prems(3), of "Some q"] q ok(1)
  show ?case by simp
qed

text \<open>
  C1. \<open>execute_script\<close> runs the commands in order and stops at the first that does not
  succeed. If the commands of \<open>pre\<close> all succeed and the next command \<open>c\<close> fails
  with result \<open>r\<close>, then whatever follows \<open>c\<close> in the script, the call returns
  \<open>(False, r)\<close>, the world is the one \<open>c\<close> left, and the commands run are exactly
  \<open>pre\<close> followed by \<open>c\<close>. If the script is not empty and every command succeeds, the
  call returns success with the result of the last command, and the commands run are the
  whole script, in order.
\<close>

theorem C1_execute_script_first_failure:
  "(list_all succeeded (fst (run_all run_local wd pre w)) \<and>
    \<not> succeeded (fst (run_local wd c (snd (run_all run_local wd pre w))))
    \<longrightarrow>
      execute_script run_local wd (pre @ c # post) w =
        ((False, Some (fst (run_local wd c (snd (run_all run_local wd pre w))))),
         snd (run_local wd c (snd (run_all run_local wd pre w)))) \<and>
      snd (snd (execute_script (traced run_local) wd (pre @ c # post) (w, []))) = pre @ [c])
   \<and>
   (script \<noteq> [] \<and> list_all succeeded (fst (run_all run_local wd script w))
    \<longrightarrow>
      execute_script run_local wd script w =
        ((True, Some (last (fst (run_all run_local wd script w)))),
         snd (run_all run_local wd script w)) \<and>
      snd (snd (execute_script (traced run_local) wd script (w, []))) = script)"
proof (intro conjI impI)
  assume a: "list_all succeeded (fst (run_all run_local wd pre w)) \<and>
    \<not> succeeded (fst (run_local wd c (snd (run_all run_local wd pre w))))"
  let ?w1 = "snd (run_all run_local wd pre w)"
  obtain r w' where r: "run_local wd c ?w1 = (r, w')" by (cases "run_local wd c ?w1")
  with a have bad: "\<not> succeeded r" by simp
  from script_loop_first_failure [OF conjunct1 [OF a] r bad]
  show "execute_script run_local wd (pre @ c # post) w =
        ((False, Some (fst (run_local wd c ?w1))), snd (run_local wd c ?w1))"
    using r by (simp add: execute_script_def execute_script_internal_def)
  have t1: "list_all succeeded (fst (run_all (traced run_local) wd pre (w, [])))"
    using a by (simp add: run_all_traced)
  have t2: "traced run_local wd c (snd (run_all (traced run_local) wd pre (w, [])))
              = (r, (w', pre @ [c]))"
    using r by (simp add: run_all_traced traced_def)
  from script_loop_first_failure [OF t1 t2 bad]
  show "snd (snd (execute_script (traced run_local) wd (pre @ c # post) (w, []))) = pre @ [c]"
    by (simp add: execute_script_def execute_script_internal_def)
next
  assume b: "script \<noteq> [] \<and> list_all succeeded (fst (run_all run_local wd script w))"
  from script_loop_all_succeed [OF conjunct2 [OF b], of None] b
  show "execute_script run_local wd script w =
        ((True, Some (last (fst (run_all run_local wd script w)))),
         snd (run_all run_local wd script w))"
    by (simp add: execute_script_def execute_script_internal_def)
  have "list_all succeeded (fst (run_all (traced run_local) wd script (w, [])))"
    using b by (simp add: run_all_traced)
  from script_loop_all_succeed [OF this, of None] b
  show "snd (snd (execute_script (traced run_local) wd script (w, []))) = script"
    by (simp add: execute_script_def execute_script_internal_def run_all_traced)
qed

theorem C1_execute_script_first_failure_witness:
  "list_all succeeded (fst (run_all demo_shell ''/p'' [''true_cmd''] [])) \<and>
   \<not> succeeded (fst (demo_shell ''/p'' ''false_cmd''
                       (snd (run_all demo_shell ''/p'' [''true_cmd''] [])))) \<and>
   execute_script demo_shell ''/p'' [''true_cmd'', ''false_cmd'', ''true_cmd2''] [] =
     ((False, Some \<lparr>stdout = ''out of false_cmd'', stderr = [], succeeded = False\<rparr>),
      [''true_cmd'', ''false_cmd'']) \<and>
   snd (snd (execute_script (traced demo_shell) ''/p''
               [''true_cmd'', ''false_cmd'', ''true_cmd2''] ([], []))) =
     [''true_cmd'', ''false_cmd''] \<and>
   [''a'', ''b''] \<noteq> [] \<and>
   list_all succeeded (fst (run_all demo_shell ''/p'' [''a'', ''b''] [])) \<and>
   execute_script demo_shell ''/p'' [''a'', ''b''] [] =
     ((True, Some \<lparr>stdout = ''out of b'', stderr = [], succeeded = True\<rparr>), [''a'', ''b''])"
  using C1_execute_script_first_failure
          [of demo_shell "''/p''" "[''true_cmd'']" "[]" "''false_cmd''" "[''true_cmd2'']"
              "[''a'', ''b'']"]
  by (simp add: demo_shell_def)

section \<open>Properties of project discovery\<close>










section \<open>Properties of the scheduler, the watchers and the daemon\<close>


lemma notify_queue [simp]: "es_queue (notify es) = es_queue es"
  by (simp add: notify_def)

lemma notify_flags [simp]:
  "es_is_finished (notify es) = es_is_finished es"
  "es_join_event (notify es) = es_join_event es"
  by (simp_all add: notify_def)

lemma notify_popped [simp]:
  "(es_worker (notify es) = Popped ev) = (es_worker es = Popped ev)"
  by (simp add: notify_def)

lemma popped_notify [simp]:
  "popped (d\<lparr>d_scheduler := (notify (d_scheduler d))\<lparr>es_queue := q\<rparr>\<rparr>) = popped d"
  "popped (d\<lparr>d_scheduler := notify (d_scheduler d)\<rparr>) = popped d"
  by (simp_all add: popped_def notify_def)

lemma popped_projects [simp]: "popped (d\<lparr>d_projects := p\<rparr>) = popped d"
  by (simp add: popped_def)

lemma timers_projects [simp]: "timers n (d\<lparr>d_projects := p\<rparr>) = timers n d"
  by (simp add: timers_def)

lemma watcher_inv_eqI:
  "d_projects d' n = d_projects d n \<Longrightarrow> timers n d' = timers n d \<Longrightarrow> popped d' = popped d \<Longrightarrow>
   watcher_inv n d' = watcher_inv n d"
  unfolding watcher_inv_def popped_for_def by (cases "d_projects d n") simp_all




lemma daemon_eq_triv:
  "d_projects d n = Some self \<Longrightarrow> d\<lparr>d_projects := (d_projects d)(n \<mapsto> self)\<rparr> = d"
  by (simp add: fun_upd_idem)




lemma set_config_fields:
  "pw_event (snd (set_config pc uc self)) = pw_event self"
  "pw_name (snd (set_config pc uc self)) = pw_name self"
  "pw_working_dir (snd (set_config pc uc self)) = pw_working_dir self"
  "pw_last_status (snd (set_config pc uc self)) = pw_last_status self"
  "pw_notification (snd (set_config pc uc self)) = pw_notification self"
  "pw_watch (snd (set_config pc uc self)) = pw_watch self"
  by (simp_all add: set_config_def split: sum.splits)














lemma unpopped_inv:
  assumes m: "watcher_inv m d"
    and np: "popped d = None" "popped d' = None"
    and t: "timers m d' = timers m d"
    and p: "d_projects d' m = d_projects d m"
  shows "watcher_inv m d'"
  using m watcher_inv_eqI [OF p t] np by simp





lemma fr_restore: "fr t = None \<Longrightarrow> (fr(t \<mapsto> x))(t := None) = fr"
  by (simp add: fun_upd_idem)







text \<open>
  C4. On the empty script the loop body never runs: \<open>execute_script\<close> returns the
  flag true and the result \<^verbatim>\<open>None\<close> it started with, and no command is run. That
  result is not an output that is empty: it has no \<^verbatim>\<open>stdout\<close> and no
  \<^verbatim>\<open>stderr\<close>. \<^verbatim>\<open>_show_notification\<close> reads both from it and raises
  \<^verbatim>\<open>AttributeError\<close>, so \<^verbatim>\<open>build\<close> of a watcher whose script is empty raises,
  and the step of the worker thread that runs it ends the thread.
\<close>

theorem C4_execute_script_empty:
  "execute_script run_local working_dir [] w = ((True, None), w) \<and>
   show_notification (True, None) self = (Some AttributeError, self) \<and>
   fst (build run_local (self\<lparr>pw_config := (pw_config self)\<lparr>cfg_script := []\<rparr>\<rparr>) w) =
     Some AttributeError \<and>
   es_worker (d_scheduler (worker_step run_local
     (set_worker (InBuild n)
        (d\<lparr>d_projects := (d_projects d)
              (n \<mapsto> self\<lparr>pw_config := (pw_config self)\<lparr>cfg_script := []\<rparr>\<rparr>)\<rparr>)))) =
     Crashed AttributeError"
  by (simp add: execute_script_def execute_script_internal_def show_notification_def
      build_def build_rest_def clear_handle_def worker_step_def set_worker_def)

text \<open>
  C5. \<^verbatim>\<open>_show_notification\<close> always builds the body as the stripped standard
  output, a line break, and the stripped standard error. For a failed build with both
  outputs empty the body is therefore the line break alone: the string is not empty, and
  the placeholder of \<^verbatim>\<open>output or "No output"\<close> is not used.
\<close>

theorem C5_no_output_placeholder_unreached:
  "nt_body (pw_notification (snd (show_notification (succ, Some r) self))) =
     strip (stdout r) @ [CHR 0x0A] @ strip (stderr r) \<and>
   show_notification (False, Some \<lparr>stdout = [], stderr = [], succeeded = False\<rparr>) self =
     (None, self\<lparr>pw_notification :=
                    show_it (update (pw_name self @ '' failed'') [CHR 0x0A] (pw_notification self)),
                  pw_last_status :=
                    (Some False, Some \<lparr>stdout = [], stderr = [], succeeded = False\<rparr>)\<rparr>) \<and>
   nt_body (pw_notification (snd (show_notification
       (False, Some \<lparr>stdout = [], stderr = [], succeeded = False\<rparr>) self))) \<noteq> ''No output''"
  by (simp add: show_notification_def Let_def update_def show_it_def strip_def)


text \<open>
  C8. \<^verbatim>\<open>set_config\<close> replaces the stored configuration and nothing else: the timer
  handle, the name, the working directory, the last status, the watch and the
  notification of the watcher are as before (and so is the configuration when
  \<^verbatim>\<open>ProjectConfig\<close> refuses the new one). In the daemon the scheduler with its queue,
  the observer and the clock are untouched, and every project has the timers it had: a
  pending debounce is not reset.
\<close>

theorem C8_set_config_frame:
  "pw_event (snd (set_config ProjectConfig user_config self)) = pw_event self \<and>
   pw_name (snd (set_config ProjectConfig user_config self)) = pw_name self \<and>
   pw_working_dir (snd (set_config ProjectConfig user_config self)) = pw_working_dir self \<and>
   pw_last_status (snd (set_config ProjectConfig user_config self)) = pw_last_status self \<and>
   pw_watch (snd (set_config ProjectConfig user_config self)) = pw_watch self \<and>
   pw_notification (snd (set_config ProjectConfig user_config self)) = pw_notification self \<and>
   pw_config (snd (set_config ProjectConfig user_config self)) =
     (case ProjectConfig user_config of Inl x \<Rightarrow> pw_config self | Inr c \<Rightarrow> c) \<and>
   d_scheduler (snd (project_set_config ProjectConfig n user_config d)) = d_scheduler d \<and>
   d_observer (snd (project_set_config ProjectConfig n user_config d)) = d_observer d \<and>
   d_clock (snd (project_set_config ProjectConfig n user_config d)) = d_clock d \<and>
   timers m (snd (project_set_config ProjectConfig n user_config d)) = timers m d"
proof -
  have a: "d_scheduler (snd (project_set_config ProjectConfig n user_config d)) = d_scheduler d"
    by (simp add: project_set_config_def split: option.splits prod.splits)
  have b: "d_observer (snd (project_set_config ProjectConfig n user_config d)) = d_observer d"
    by (simp add: project_set_config_def split: option.splits prod.splits)
  have c: "d_clock (snd (project_set_config ProjectConfig n user_config d)) = d_clock d"
    by (simp add: project_set_config_def split: option.splits prod.splits)
  have e: "pw_config (snd (set_config ProjectConfig user_config self)) =
     (case ProjectConfig user_config of Inl x \<Rightarrow> pw_config self | Inr c \<Rightarrow> c)"
    by (simp add: set_config_def split: sum.splits)
  from a have t: "timers m (snd (project_set_config ProjectConfig n user_config d)) = timers m d"
    by (simp add: timers_def)
  show ?thesis using a b c e t by (simp add: set_config_fields)
qed

end
